theory Spec2Isabelle
  imports Complex_Main "HOL-Library.Char_ord" "HOL-Library.List_Lexorder"
begin

section \<open>Numbers, cells and frames\<close>

text \<open>
  A Python float that the service compares against thresholds: \<open>None\<close>, NaN, a finite
  value or an infinity. Finite values are read as the real number they denote; the
  comparisons of the source against integer constants are exact on that reading.
\<close>

datatype pyval = PNone | PNaN | PFloat real | PInf | PNegInf

fun isna :: "pyval \<Rightarrow> bool" where
  "isna PNone = True"
| "isna PNaN = True"
| "isna _ = False"

fun py_gt :: "pyval \<Rightarrow> real \<Rightarrow> bool" where
  "py_gt (PFloat v) c = (v > c)"
| "py_gt PInf c = True"
| "py_gt _ c = False"

fun py_ge :: "pyval \<Rightarrow> real \<Rightarrow> bool" where
  "py_ge (PFloat v) c = (v \<ge> c)"
| "py_ge PInf c = True"
| "py_ge _ c = False"

fun py_le :: "pyval \<Rightarrow> real \<Rightarrow> bool" where
  "py_le (PFloat v) c = (v \<le> c)"
| "py_le PNegInf c = True"
| "py_le _ c = False"

text \<open>
  \<open>numpy.clip(x, lo, hi)\<close> is \<open>minimum(maximum(x, lo), hi)\<close>; \<open>Series.round(n)\<close> scales
  by \<open>10 ^ n\<close>, rounds to the nearest integer with ties to the even one, and scales
  back. The arithmetic is over the reals: on Likert answers (integers 1 to 5) every
  intermediate value of the rate formulas is a binary fraction that a double holds
  exactly, so the two agree there.
\<close>

definition clip :: "real \<Rightarrow> real \<Rightarrow> real \<Rightarrow> real" where
  "clip lo hi x = min (max x lo) hi"

definition rint :: "real \<Rightarrow> int" where
  "rint x = (let f = \<lfloor>x\<rfloor>; d = x - of_int f in
     if d < 1 / 2 then f
     else if d > 1 / 2 then f + 1
     else if even f then f else f + 1)"

definition round_dp :: "nat \<Rightarrow> real \<Rightarrow> real" where
  "round_dp n x = of_int (rint (x * 10 ^ n)) / 10 ^ n"

text \<open>
  The Likert-to-percentage transform, written three times in
  \<open>calculate_row_metrics\<close> and three times in \<open>calculate_survey_metrics\<close> as
  \<open>((x - 1) / 4 * 100).clip(0, 100).round(1)\<close>: \<open>pct\<close> is the part before the rounding,
  \<open>rate_of\<close> the whole expression.
\<close>

definition pct :: "real \<Rightarrow> real" where
  "pct x = clip 0 100 ((x - 1) / 4 * 100)"

definition rate_of :: "real \<Rightarrow> real" where
  "rate_of x = round_dp 1 (pct x)"

text \<open>
  A DataFrame: the ordered column names and the rows, each a function from a column
  name to its cell. A cell is null (Python \<open>None\<close>, NaN or NaT), a number or a
  string; a column that a frame does not have reads as null in every row, and the
  source's tests of \<open>col in df.columns\<close> are made on the column list.
\<close>

datatype cell = Null | Num real | Str string

type_synonym row = "string \<Rightarrow> cell"

record frame =
  columns :: "string list"
  rows :: "row list"

datatype error = KeyError string | ValueError string | IndexError

fun nums :: "cell list \<Rightarrow> real list" where
  "nums [] = []"
| "nums (Num x # cs) = x # nums cs"
| "nums (_ # cs) = nums cs"

definition mean_cells :: "cell list \<Rightarrow> cell" where
  "mean_cells cs = (case nums cs of [] \<Rightarrow> Null | x # xs \<Rightarrow> Num (sum_list (x # xs) / real (length (x # xs))))"


section \<open>Risk labels (routes/team.py)\<close>

fun calculate_risk_label :: "pyval \<Rightarrow> string \<Rightarrow> string" where
  "calculate_risk_label v metric_type =
     (if isna v then ''healthy''
      else if metric_type = ''score'' then
        (if py_gt v 75 then ''healthy''
         else if py_gt v 65 then ''watch''
         else if py_ge v 55 then ''warning''
         else ''critical'')
      else
        (if py_le v 20 then ''healthy''
         else if py_le v 35 then ''watch''
         else if py_le v 50 then ''warning''
         else ''critical''))"

section \<open>Department sync of the CSV upload (routes/upload.py)\<close>


















section \<open>Narrative JSON repair (routes/insight.py)\<close>

text \<open>
  A Python \<open>str\<close> is a sequence of Unicode code points, modelled as a list of naturals
  (the curly quotes U+201C and U+201D do not fit a byte). \<open>U\<close> reads an ASCII literal.
  \<open>is_space\<close> is the set that \<open>str.strip\<close> and the pattern \<open>\s\<close> share; \<open>is_alpha\<close> is
  the class \<open>[a-zA-Z]\<close>.
\<close>

type_synonym ustr = "nat list"

definition U :: "string \<Rightarrow> ustr" where
  "U s = map of_char s"

definition is_space :: "nat \<Rightarrow> bool" where
  "is_space c = ((9 \<le> c \<and> c \<le> 13) \<or> (28 \<le> c \<and> c \<le> 32) \<or> c = 133 \<or> c = 160
     \<or> c = 5760 \<or> (8192 \<le> c \<and> c \<le> 8202) \<or> c = 8232 \<or> c = 8233 \<or> c = 8239
     \<or> c = 8287 \<or> c = 12288)"

definition is_alpha :: "nat \<Rightarrow> bool" where
  "is_alpha c = ((65 \<le> c \<and> c \<le> 90) \<or> (97 \<le> c \<and> c \<le> 122))"

definition lstrip :: "ustr \<Rightarrow> ustr" where
  "lstrip s = dropWhile is_space s"

definition rstrip :: "ustr \<Rightarrow> ustr" where
  "rstrip s = rev (dropWhile is_space (rev s))"

definition strip :: "ustr \<Rightarrow> ustr" where
  "strip s = rstrip (lstrip s)"

definition startswith :: "'a list \<Rightarrow> 'a list \<Rightarrow> bool" where
  "startswith s p = (take (length p) s = p)"

definition endswith :: "'a list \<Rightarrow> 'a list \<Rightarrow> bool" where
  "endswith s p = (length p \<le> length s \<and> drop (length s - length p) s = p)"

text \<open>\<open>sub in s\<close>.\<close>

fun contains :: "'a list \<Rightarrow> 'a list \<Rightarrow> bool" where
  "contains [] sub = (sub = [])"
| "contains (c # cs) sub = (startswith (c # cs) sub \<or> contains cs sub)"

text \<open>\<open>s.find(c)\<close> and \<open>s.rfind(c)\<close> for a single character; \<open>None\<close> is the source's -1.\<close>

fun find_char :: "'a list \<Rightarrow> 'a \<Rightarrow> nat option" where
  "find_char [] c = None"
| "find_char (x # xs) c = (if x = c then Some 0 else map_option Suc (find_char xs c))"

definition rfind_char :: "'a list \<Rightarrow> 'a \<Rightarrow> nat option" where
  "rfind_char s c = map_option (\<lambda>i. length s - 1 - i) (find_char (rev s) c)"

text \<open>
  \<open>s.replace(old, new)\<close> for a non-empty \<open>old\<close>: the occurrences are replaced from the
  left, without overlap.
\<close>

fun replace_all :: "'a list \<Rightarrow> 'a list \<Rightarrow> 'a list \<Rightarrow> 'a list" where
  "replace_all old new [] = []"
| "replace_all old new (c # cs) =
     (if old \<noteq> [] \<and> startswith (c # cs) old
      then new @ replace_all old new (drop (length old - 1) cs)
      else c # replace_all old new cs)"

text \<open>
  The two substitutions under \<open>if "```" in raw_text\<close>. The pattern
  \<open>^```[a-zA-Z]*\s*\<close> matches only at the start of the stripped text: the fence, the
  longest run of letters, the longest run of white space. The pattern \<open>\s*```$\<close> on the
  stripped text matches once, at the closing fence that ends the text together with
  the white space before it.
\<close>

definition fence :: ustr where
  "fence = [96, 96, 96]"

definition strip_fences :: "ustr \<Rightarrow> ustr" where
  "strip_fences raw_text =
     (if contains raw_text fence then
        (let t1 = strip raw_text;
             t2 = (if startswith t1 fence
                   then dropWhile is_space (dropWhile is_alpha (drop 3 t1)) else t1);
             t3 = strip t2
         in if endswith t3 fence then rstrip (take (length t3 - 3) t3) else t3)
      else raw_text)"

text \<open>\<open>raw_text[start_idx : end_idx + 1]\<close> when both indices were found.\<close>

definition cut_braces :: "ustr \<Rightarrow> ustr" where
  "cut_braces raw_text =
     (case (find_char raw_text 123, rfind_char raw_text 125) of
        (Some start_idx, Some end_idx) \<Rightarrow> take (end_idx + 1 - start_idx) (drop start_idx raw_text)
      | _ \<Rightarrow> raw_text)"

definition strip_control :: "ustr \<Rightarrow> ustr" where
  "strip_control raw_text = filter (\<lambda>c. \<not> (c \<le> 31 \<or> c = 127)) raw_text"

text \<open>
  Line 141 of the source is ASCII throughout:
  \<^verbatim>\<open>raw_text = raw_text.replace(""", '"').replace(""", '"')\<close>.
  The first three double quotes open a triple-quoted literal that the next three close,
  so the statement is one call of \<open>replace\<close>, whose first argument is the fifteen
  characters \<^verbatim>\<open>, '"').replace(\<close> and whose second is one double quote.
\<close>

definition quote_old :: ustr where
  "quote_old = U '', '' @ [39, 34, 39] @ U '').replace(''"

definition normalize_quotes :: "ustr \<Rightarrow> ustr" where
  "normalize_quotes raw_text = replace_all quote_old [34] raw_text"

definition clean_text :: "ustr \<Rightarrow> ustr" where
  "clean_text raw_text = normalize_quotes (strip_control (cut_braces (strip_fences raw_text)))"

datatype json = JNull | JBool bool | JNumber real | JString ustr
  | JArray "json list" | JObject "(ustr \<times> json) list"

datatype exn = JSONDecodeError | AttributeError | ClientError

text \<open>
  \<open>json.loads\<close> belongs to the standard library and is a parameter: it returns the
  parsed value or raises.
\<close>

definition clean_llm_json :: "(ustr \<Rightarrow> exn + json) \<Rightarrow> ustr \<Rightarrow> exn + json" where
  "clean_llm_json loads raw_text = loads (clean_text raw_text)"

definition placeholder :: json where
  "placeholder = JObject [(U ''summary'', JString (U ''Data processed.'')),
                          (U ''keyObservations'', JArray [])]"

text \<open>
  The \<open>try\<close> block of \<open>generate_ai_summary\<close>. The chat completion either raises or
  carries a message whose content is a string or \<open>None\<close> (on which \<open>.strip()\<close> raises);
  \<open>except Exception\<close> turns every exception into the placeholder. \<open>Inl\<close> in the result
  would be an exception that reaches the caller.
\<close>

definition generate_ai_summary ::
  "(ustr \<Rightarrow> exn + json) \<Rightarrow> exn + ustr option \<Rightarrow> exn + json" where
  "generate_ai_summary loads response =
     (case (case response of
              Inl e \<Rightarrow> Inl e
            | Inr None \<Rightarrow> Inl AttributeError
            | Inr (Some content) \<Rightarrow> clean_llm_json loads (strip content)) of
        Inl e \<Rightarrow> Inr placeholder
      | Inr j \<Rightarrow> Inr j)"

definition fenced_input :: ustr where
  \<open>fenced_input = U ''```json'' @ [10] @ U ''{"summary": "ok"}'' @ [10] @ U ''```''\<close>

definition curly_input :: ustr where
  "curly_input = [123, 8220] @ U ''summary'' @ [8221, 58, 32, 8220] @ U ''ok'' @ [8221, 125]"

section \<open>Metrics filter and aggregation (routes/metrics.py)\<close>

text \<open>
  \<open>str.lower\<close> and \<open>str.upper\<close> on the ASCII letters; department and quarter labels
  are taken to be ASCII.
\<close>

definition lower_char :: "char \<Rightarrow> char" where
  "lower_char c = (case map_of (zip ''ABCDEFGHIJKLMNOPQRSTUVWXYZ'' ''abcdefghijklmnopqrstuvwxyz'') c of
                     Some d \<Rightarrow> d | None \<Rightarrow> c)"

definition upper_char :: "char \<Rightarrow> char" where
  "upper_char c = (case map_of (zip ''abcdefghijklmnopqrstuvwxyz'' ''ABCDEFGHIJKLMNOPQRSTUVWXYZ'') c of
                     Some d \<Rightarrow> d | None \<Rightarrow> c)"

definition lower :: "string \<Rightarrow> string" where
  "lower s = map lower_char s"

definition upper :: "string \<Rightarrow> string" where
  "upper s = map upper_char s"

text \<open>A value of a result dictionary: \<open>None\<close>, an int, a float or a string.\<close>

datatype pv = VNone | VInt int | VFloat real | VStr string

type_synonym pdict = "string \<rightharpoonup> pv"

text \<open>\<open>int(x)\<close> truncates towards zero.\<close>

definition py_int :: "real \<Rightarrow> int" where
  "py_int x = (if x \<ge> 0 then \<lfloor>x\<rfloor> else \<lceil>x\<rceil>)"

definition sum_columns :: "string list" where
  "sum_columns = [''Response_Count'', ''Total_Employees'', ''eNPS_Promoters'', ''eNPS_Passives'',
                  ''eNPS_Detractors'']"

definition mean_columns :: "string list" where
  "mean_columns = [''Response_Rate'', ''Job_Satisfaction'', ''Work_Life_Balance'', ''Manager_Support'',
                   ''Growth_Opportunities'', ''Overall_Engagement'', ''eNPS'', ''Avg_eNPS_Score'',
                   ''Burnout_Score'', ''Burnout_Rate'', ''Turnover_Risk'', ''Avg_Workload'',
                   ''Avg_Sentiment'']"

definition column_cells :: "frame \<Rightarrow> string \<Rightarrow> cell list" where
  "column_cells df col = map (\<lambda>r. r col) (rows df)"

definition aggregate_column :: "frame \<Rightarrow> string \<Rightarrow> pv" where
  "aggregate_column df col =
     (if col \<in> set sum_columns then VInt (py_int (sum_list (nums (column_cells df col))))
      else if col \<in> set mean_columns then
        (case mean_cells (column_cells df col) of Num mean_val \<Rightarrow> VFloat mean_val | _ \<Rightarrow> VNone)
      else VStr ''All'')"

definition aggregate_dataframe :: "frame \<Rightarrow> pv \<Rightarrow> pv \<Rightarrow> pv \<Rightarrow> pdict" where
  "aggregate_dataframe df dept_name year quarter =
     (fold (\<lambda>col aggregated. aggregated(col \<mapsto> aggregate_column df col)) (columns df) Map.empty)
       (''Department'' \<mapsto> dept_name, ''Quarter'' \<mapsto> quarter, ''Year'' \<mapsto> year)"

text \<open>Boolean-mask selections of \<open>filter_metrics\<close>; a comparison with a null cell is false.\<close>

definition select_rows :: "(row \<Rightarrow> bool) \<Rightarrow> frame \<Rightarrow> frame" where
  "select_rows p df = df\<lparr>rows := filter p (rows df)\<rparr>"

fun year_is :: "int \<Rightarrow> cell \<Rightarrow> bool" where
  "year_is y (Num v) = (v = of_int y)"
| "year_is y _ = False"

fun lower_is :: "string \<Rightarrow> cell \<Rightarrow> bool" where
  "lower_is s (Str v) = (lower v = s)"
| "lower_is s _ = False"

fun upper_is :: "string \<Rightarrow> cell \<Rightarrow> bool" where
  "upper_is s (Str v) = (upper v = s)"
| "upper_is s _ = False"

fun cell_pv :: "cell \<Rightarrow> pv" where
  "cell_pv Null = VNone"
| "cell_pv (Num v) = VFloat v"
| "cell_pv (Str s) = VStr s"

definition to_records :: "frame \<Rightarrow> pdict list" where
  "to_records df = map (\<lambda>r c. if c \<in> set (columns df) then Some (cell_pv (r c)) else None) (rows df)"

text \<open>Truthiness of an optional string argument: \<open>None\<close> and the empty string are falsy.\<close>

fun truthy :: "string option \<Rightarrow> bool" where
  "truthy None = False"
| "truthy (Some s) = (s \<noteq> [])"

definition empty_quarter_row :: "string option \<Rightarrow> string \<Rightarrow> int \<Rightarrow> pdict" where
  "empty_quarter_row department q year =
     [''Department'' \<mapsto> VStr (if truthy department then the department else ''All''),
      ''Quarter'' \<mapsto> VStr q,
      ''Year'' \<mapsto> VInt year,
      ''Response_Count'' \<mapsto> VInt 0,
      ''Burnout_Rate'' \<mapsto> VNone,
      ''Turnover_Risk'' \<mapsto> VNone,
      ''eNPS'' \<mapsto> VNone,
      ''Overall_Engagement'' \<mapsto> VNone]"

definition quarter_entry :: "frame \<Rightarrow> string option \<Rightarrow> int \<Rightarrow> string \<Rightarrow> pdict" where
  "quarter_entry df department year q =
     (let q_df = select_rows (\<lambda>r. upper_is (upper q) (r ''Quarter'')) df
      in if rows q_df = [] then empty_quarter_row department q year
         else aggregate_dataframe q_df
                (VStr (if truthy department then the department else ''All'')) (VInt year) (VStr q))"

text \<open>
  \<open>filter_metrics\<close>; \<open>now_year\<close> is \<open>datetime.now().year\<close>. Indexing a column that the
  frame does not have raises \<open>KeyError\<close>.
\<close>

definition filter_metrics ::
  "int \<Rightarrow> frame \<Rightarrow> string option \<Rightarrow> string option \<Rightarrow> int option \<Rightarrow> string option
     \<Rightarrow> error + pdict list" where
  "filter_metrics now_year df0 department quarter year0 group_by =
     (let year = (case year0 of None \<Rightarrow> now_year | Some y \<Rightarrow> y);
          df1 = (if ''Year'' \<in> set (columns df0)
                 then select_rows (\<lambda>r. year_is year (r ''Year'')) df0 else df0)
      in if group_by = Some ''quarter'' then
           (if truthy department \<and> ''Department'' \<notin> set (columns df1) then Inl (KeyError ''Department'')
            else
              (let df = (if truthy department
                         then select_rows (\<lambda>r. lower_is (lower (the department)) (r ''Department'')) df1
                         else df1)
               in if ''Quarter'' \<notin> set (columns df) then Inl (KeyError ''Quarter'')
                  else Inr (map (quarter_entry df department year) [''Q1'', ''Q2'', ''Q3'', ''Q4''])))
         else if truthy quarter \<and> ''Quarter'' \<notin> set (columns df1) then Inl (KeyError ''Quarter'')
         else
           (let df2 = (if truthy quarter
                       then select_rows (\<lambda>r. upper_is (upper (the quarter)) (r ''Quarter'')) df1
                       else df1)
            in if truthy department then
                 (if ''Department'' \<notin> set (columns df2) then Inl (KeyError ''Department'')
                  else
                    (let df = select_rows (\<lambda>r. lower_is (lower (the department)) (r ''Department'')) df2
                     in if truthy quarter then Inr (to_records df)
                        else Inr [aggregate_dataframe df (VStr (the department)) (VInt year) (VStr ''All'')]))
               else if truthy quarter then
                 Inr [aggregate_dataframe df2 (VStr ''All'') (VInt year) (VStr (the quarter))]
               else Inr [aggregate_dataframe df2 (VStr ''All'') (VInt year) (VStr ''All'')]))"

definition metrics_frame :: frame where
  "metrics_frame = \<lparr>columns = [''Department'', ''Quarter'', ''Year'', ''Response_Count'', ''Burnout_Rate''],
     rows = [(\<lambda>_. Null)(''Department'' := Str ''Ops'', ''Quarter'' := Str ''Q1'', ''Year'' := Num 2024,
                          ''Response_Count'' := Num 7, ''Burnout_Rate'' := Num 40),
             (\<lambda>_. Null)(''Department'' := Str ''HR'', ''Quarter'' := Str ''Q1'', ''Year'' := Num 2024,
                          ''Response_Count'' := Num 3, ''Burnout_Rate'' := Num 20),
             (\<lambda>_. Null)(''Department'' := Str ''Ops'', ''Quarter'' := Str ''Q2'', ''Year'' := Num 2024,
                          ''Response_Count'' := Num 5, ''Burnout_Rate'' := Null)]\<rparr>"

text \<open>
  The rows of a frame that match the year, the department (when one is given) and a
  quarter: the rows a quarter's entry is about.
\<close>

definition matching_rows :: "int \<Rightarrow> frame \<Rightarrow> string option \<Rightarrow> int option \<Rightarrow> string \<Rightarrow> row list" where
  "matching_rows now_year df department year0 q =
     filter (\<lambda>r. (''Year'' \<in> set (columns df) \<longrightarrow>
                     year_is (case year0 of None \<Rightarrow> now_year | Some y \<Rightarrow> y) (r ''Year''))
                \<and> (truthy department \<longrightarrow> lower_is (lower (the department)) (r ''Department''))
                \<and> upper_is q (r ''Quarter''))
            (rows df)"

text \<open>The frame that the quarter loop of \<open>filter_metrics\<close> iterates over.\<close>

definition quarter_base :: "int \<Rightarrow> frame \<Rightarrow> string option \<Rightarrow> int option \<Rightarrow> frame" where
  "quarter_base now_year df0 department year0 =
     (let year = (case year0 of None \<Rightarrow> now_year | Some y \<Rightarrow> y);
          df1 = (if ''Year'' \<in> set (columns df0)
                 then select_rows (\<lambda>r. year_is year (r ''Year'')) df0 else df0)
      in if truthy department
         then select_rows (\<lambda>r. lower_is (lower (the department)) (r ''Department'')) df1
         else df1)"

section \<open>Dates, quarters and festival seasons (utils/quarter.py, utils/season_detect.py)\<close>

text \<open>
  A calendar date and its ordinal (the day count of \<open>date.toordinal\<close>), so that the
  difference of two ordinals is the \<open>.days\<close> of the difference of two midnights.
\<close>

datatype date = Date (date_year: int) (date_month: nat) (date_day: nat)

definition is_leap :: "int \<Rightarrow> bool" where
  "is_leap y = (y mod 4 = 0 \<and> (y mod 100 \<noteq> 0 \<or> y mod 400 = 0))"

definition days_in_month :: "int \<Rightarrow> nat \<Rightarrow> nat" where
  "days_in_month y m =
     (if m = 2 then (if is_leap y then 29 else 28)
      else if m \<in> {4, 6, 9, 11} then 30 else 31)"

definition days_before_year :: "int \<Rightarrow> int" where
  "days_before_year y = (y - 1) * 365 + (y - 1) div 4 - (y - 1) div 100 + (y - 1) div 400"

definition days_before_month :: "int \<Rightarrow> nat \<Rightarrow> nat" where
  "days_before_month y m = sum_list (map (days_in_month y) [1..<m])"

fun toordinal :: "date \<Rightarrow> int" where
  "toordinal (Date y m d) = days_before_year y + int (days_before_month y m) + int d"

definition valid_date :: "date \<Rightarrow> bool" where
  "valid_date dt = (1 \<le> date_year dt \<and> date_year dt \<le> 9999
     \<and> 1 \<le> date_month dt \<and> date_month dt \<le> 12
     \<and> 1 \<le> date_day dt \<and> date_day dt \<le> days_in_month (date_year dt) (date_month dt))"

text \<open>
  \<open>datetime.strptime(s, "%Y-%m-%d")\<close> of the standard library, on ASCII text: the
  whole string must read as four digits, a dash, a month \<open>1[0-2]|0[1-9]|[1-9]\<close>, a dash
  and a day \<open>3[01]|[12]\d|0[1-9]|[1-9]| [1-9]\<close>, and the three numbers must form a date of
  the calendar; otherwise it raises \<open>ValueError\<close> (here \<open>None\<close>).
\<close>

fun split_on :: "char \<Rightarrow> string \<Rightarrow> string list" where
  "split_on sep [] = [[]]"
| "split_on sep (x # xs) =
     (if x = sep then [] # split_on sep xs
      else (case split_on sep xs of w # ws \<Rightarrow> (x # w) # ws | [] \<Rightarrow> [[x]]))"

definition digit_val :: "char \<Rightarrow> nat option" where
  "digit_val c = map_of (zip ''0123456789'' [0, 1, 2, 3, 4, 5, 6, 7, 8, 9]) c"

definition is_digit :: "char \<Rightarrow> bool" where
  "is_digit c = (digit_val c \<noteq> None)"

definition digits_val :: "string \<Rightarrow> nat" where
  "digits_val s = fold (\<lambda>c n. 10 * n + the (digit_val c)) s 0"

definition year_field :: "string \<Rightarrow> bool" where
  "year_field s = (length s = 4 \<and> list_all is_digit s)"

fun month_field :: "string \<Rightarrow> bool" where
  "month_field [a] = (is_digit a \<and> a \<noteq> CHR ''0'')"
| "month_field [a, b] = ((a = CHR ''1'' \<and> b \<in> set ''012'') \<or> (a = CHR ''0'' \<and> is_digit b \<and> b \<noteq> CHR ''0''))"
| "month_field _ = False"

fun day_field :: "string \<Rightarrow> bool" where
  "day_field [a] = (is_digit a \<and> a \<noteq> CHR ''0'')"
| "day_field [a, b] = ((a = CHR ''3'' \<and> b \<in> set ''01'') \<or> (a \<in> set ''12'' \<and> is_digit b)
      \<or> (a \<in> set ''0 '' \<and> is_digit b \<and> b \<noteq> CHR ''0''))"
| "day_field _ = False"

definition strptime_ymd :: "string \<Rightarrow> date option" where
  "strptime_ymd s =
     (case split_on CHR ''-'' s of
        [y, m, d] \<Rightarrow>
          if year_field y \<and> month_field m \<and> day_field d then
            (let dt = Date (int (digits_val y)) (digits_val m) (digits_val (filter is_digit d))
             in if valid_date dt then Some dt else None)
          else None
      | _ \<Rightarrow> None)"

definition get_quarter :: "string \<Rightarrow> error + string" where
  "get_quarter date_str =
     (case strptime_ymd date_str of
        None \<Rightarrow> Inl (ValueError ''Invalid date format'')
      | Some date_obj \<Rightarrow>
          (let month = date_month date_obj
           in if month \<le> 3 then Inr ''Q1''
              else if month \<le> 6 then Inr ''Q2''
              else if month \<le> 9 then Inr ''Q3''
              else Inr ''Q4''))"

text \<open>
  \<open>holidays.MY(years=year)\<close> is an external table and a parameter: the holidays of a
  year as (date, name) pairs, in the order in which \<open>.items()\<close> yields them.
\<close>

type_synonym holidays = "int \<Rightarrow> (date \<times> string) list"

definition classify_holiday :: "date \<Rightarrow> date \<times> string \<Rightarrow> string list" where
  "classify_holiday input_date h =
     (let days_diff = toordinal input_date - toordinal (fst h)
      in if days_diff = 0 then [''festival: '' @ snd h]
         else if - 15 \<le> days_diff \<and> days_diff < 0 then [''pre-festival: '' @ snd h]
         else if 0 < days_diff \<and> days_diff \<le> 15 then [''post-festival: '' @ snd h]
         else [])"

definition classify_festival_date :: "holidays \<Rightarrow> string \<Rightarrow> int \<Rightarrow> error + string list" where
  "classify_festival_date holidays_MY input_date year =
     (case strptime_ymd input_date of
        None \<Rightarrow> Inl (ValueError ''does not match format'')
      | Some dt \<Rightarrow>
          (let results = concat (map (classify_holiday dt) (holidays_MY year))
           in Inr (if results = [] then [''normal day''] else results)))"

text \<open>\<open>sep.join(xs)\<close>.\<close>

fun join :: "string \<Rightarrow> string list \<Rightarrow> string" where
  "join sep [] = []"
| "join sep [x] = x"
| "join sep (x # y # ys) = x @ sep @ join sep (y # ys)"

definition month_names :: "string list" where
  "month_names = [''January'', ''February'', ''March'', ''April'', ''May'', ''June'', ''July'',
                  ''August'', ''September'', ''October'', ''November'', ''December'']"

definition month_name :: "date \<Rightarrow> string" where
  "month_name dt = month_names ! (date_month dt - 1)"


section \<open>Row metrics (utils/risk_engine_helpers.py)\<close>

text \<open>
  Assigning a column, \<open>data[c] = ...\<close>, with a value computed row by row; a new column
  goes to the end of the column list. Arithmetic on cells propagates null, as pandas
  does; the question columns are taken to hold numbers or nulls.
\<close>

definition set_column :: "string \<Rightarrow> (row \<Rightarrow> cell) \<Rightarrow> frame \<Rightarrow> frame" where
  "set_column c f df =
     \<lparr>columns = (if c \<in> set (columns df) then columns df else columns df @ [c]),
      rows = map (\<lambda>r. r(c := f r)) (rows df)\<rparr>"

fun cell_map :: "(real \<Rightarrow> real) \<Rightarrow> cell \<Rightarrow> cell" where
  "cell_map f (Num x) = Num (f x)"
| "cell_map f _ = Null"

fun cell_map2 :: "(real \<Rightarrow> real \<Rightarrow> real) \<Rightarrow> cell \<Rightarrow> cell \<Rightarrow> cell" where
  "cell_map2 f (Num x) (Num y) = Num (f x y)"
| "cell_map2 f _ _ = Null"

fun notna :: "cell \<Rightarrow> bool" where
  "notna Null = False"
| "notna _ = True"

text \<open>The decimal text of a natural number, for \<open>f"Q{q_num}_"\<close>.\<close>

fun str_nat :: "nat \<Rightarrow> string" where
  "str_nat n = (if n < 10 then [''0123456789'' ! n]
                else str_nat (n div 10) @ [''0123456789'' ! (n mod 10)])"

declare str_nat.simps [simp del]

definition dimension_map :: "(string \<times> nat list) list" where
  "dimension_map =
     [(''Dim_Employee_Engagement'', [1, 9]),
      (''Dim_Leadership'', [2, 10]),
      (''Dim_Enablement'', [3, 11]),
      (''Dim_Development'', [4, 12]),
      (''Dim_Delight_Customer'', [5, 13]),
      (''Dim_Company_Confidence'', [6, 14]),
      (''Dim_Culture_Values'', [7, 15]),
      (''Dim_ESG'', [8])]"

definition first_where :: "('a \<Rightarrow> bool) \<Rightarrow> 'a list \<Rightarrow> 'a option" where
  "first_where p xs = (case filter p xs of [] \<Rightarrow> None | x # _ \<Rightarrow> Some x)"

definition get_col :: "string list \<Rightarrow> nat \<Rightarrow> string option" where
  "get_col cols q_num =
     first_where (\<lambda>c. startswith c (''Q'' @ str_nat q_num @ ''_'') \<or> c = ''Q'' @ str_nat q_num) cols"

text \<open>The list of the columns found, \<open>None\<close> results dropped.\<close>

fun somes :: "'a option list \<Rightarrow> 'a list" where
  "somes [] = []"
| "somes (None # xs) = somes xs"
| "somes (Some x # xs) = x # somes xs"

definition row_mean :: "string list \<Rightarrow> row \<Rightarrow> cell" where
  "row_mean cols r = mean_cells (map r cols)"

definition row_dimension_step :: "string \<times> nat list \<Rightarrow> frame \<Rightarrow> frame" where
  "row_dimension_step dm data =
     (let cols = somes (map (get_col (columns data)) (snd dm))
      in if cols \<noteq> [] then set_column (fst dm) (\<lambda>r. cell_map (round_dp 2) (row_mean cols r)) data
         else set_column (fst dm) (\<lambda>r. Null) data)"

text \<open>
  \<open>safe_quarter\<close> and \<open>safe_season\<close> on \<open>str(d)\<close>. The text of a number has no two
  dashes, so \<open>strptime\<close> raises on it. \<open>classify_festival_date\<close> is called without its
  \<open>year\<close> argument, which therefore is the default 2026.
\<close>

fun safe_quarter :: "cell \<Rightarrow> cell" where
  "safe_quarter (Str d) = (case get_quarter d of Inr q \<Rightarrow> Str q | Inl e \<Rightarrow> Null)"
| "safe_quarter _ = Null"

fun safe_season :: "holidays \<Rightarrow> cell \<Rightarrow> cell" where
  "safe_season holidays_MY (Str d) =
     (case classify_festival_date holidays_MY d 2026 of
        Inr res \<Rightarrow> Str (join '', '' res)
      | Inl e \<Rightarrow> Str ''normal day'')"
| "safe_season holidays_MY _ = Str ''normal day''"

text \<open>
  \<open>numpy.select\<close> for the turnover label: a comparison with a null rate is false.
\<close>

fun turnover_label :: "cell \<Rightarrow> cell" where
  "turnover_label (Num a) = (if a \<ge> 75 then Str ''High'' else if a \<ge> 50 then Str ''Medium'' else Str ''Low'')"
| "turnover_label _ = Str ''Low''"

text \<open>
  \<open>calculate_row_metrics\<close>. \<open>pandas.to_datetime(..., errors='coerce')\<close> is a parameter:
  the date it reads from a cell, or \<open>None\<close> for NaT.
\<close>

definition row_stress :: "frame \<Rightarrow> frame" where
  "row_stress data =
     (if ''Dim_Enablement'' \<in> set (columns data) \<and> ''Dim_Culture_Values'' \<in> set (columns data) then
        set_column ''stress_rate'' (\<lambda>r. cell_map rate_of (r ''Stress_Score''))
          (set_column ''Stress_Score''
             (\<lambda>r. cell_map (\<lambda>support_score. round_dp 2 (6 - support_score))
                     (cell_map2 (\<lambda>a b. (a + b) / 2) (r ''Dim_Enablement'') (r ''Dim_Culture_Values'')))
             data)
      else set_column ''stress_rate'' (\<lambda>r. Null) (set_column ''Stress_Score'' (\<lambda>r. Null) data))"

definition row_engagement :: "frame \<Rightarrow> frame" where
  "row_engagement data =
     (if ''Dim_Employee_Engagement'' \<in> set (columns data) then
        set_column ''engagement_rate'' (\<lambda>r. cell_map rate_of (r ''Dim_Employee_Engagement'')) data
      else set_column ''engagement_rate'' (\<lambda>r. Null) data)"

definition attrition_of :: "cell \<Rightarrow> cell \<Rightarrow> cell" where
  "attrition_of q1 q12 =
     cell_map (\<lambda>retention_driver. rate_of (6 - retention_driver)) (cell_map2 (\<lambda>a b. (a + b) / 2) q1 q12)"

definition row_attrition :: "frame \<Rightarrow> frame" where
  "row_attrition data =
     (case (get_col (columns data) 1, get_col (columns data) 12) of
        (Some q1_col, Some q12_col) \<Rightarrow>
          if q1_col \<noteq> [] \<and> q12_col \<noteq> [] then
            set_column ''Turnover_Risk_Label'' (\<lambda>r. turnover_label (r ''attrition_rate''))
              (set_column ''attrition_rate'' (\<lambda>r. attrition_of (r q1_col) (r q12_col)) data)
          else set_column ''attrition_rate'' (\<lambda>r. Null) data
      | _ \<Rightarrow> set_column ''attrition_rate'' (\<lambda>r. Null) data)"

definition row_temporal :: "holidays \<Rightarrow> (cell \<Rightarrow> date option) \<Rightarrow> frame \<Rightarrow> frame" where
  "row_temporal holidays_MY to_datetime data =
     (let date_col = (if ''submission_date'' \<in> set (columns data) then ''submission_date''
                      else ''Submission_Date'')
      in if date_col \<in> set (columns data) then
           set_column ''year''
             (\<lambda>r. case to_datetime (r date_col) of Some dt \<Rightarrow> Num (of_int (date_year dt)) | None \<Rightarrow> Null)
             (set_column ''month''
                (\<lambda>r. case to_datetime (r date_col) of Some dt \<Rightarrow> Str (month_name dt) | None \<Rightarrow> Null)
                (set_column ''event_season''
                   (\<lambda>r. if notna (r date_col) then safe_season holidays_MY (r date_col)
                         else Str ''normal day'')
                   (set_column ''quarter''
                      (\<lambda>r. if notna (r date_col) then safe_quarter (r date_col) else Null)
                      data)))
         else fold (\<lambda>c. set_column c (\<lambda>r. Null)) [''quarter'', ''event_season'', ''month'', ''year''] data)"

definition calculate_row_metrics :: "holidays \<Rightarrow> (cell \<Rightarrow> date option) \<Rightarrow> frame \<Rightarrow> frame" where
  "calculate_row_metrics holidays_MY to_datetime df =
     row_temporal holidays_MY to_datetime
       (row_attrition (row_engagement (row_stress (fold row_dimension_step dimension_map df))))"

text \<open>\<open>calculate_survey_metrics\<close>.\<close>

definition rename_column :: "string \<Rightarrow> string \<Rightarrow> frame \<Rightarrow> frame" where
  "rename_column old new df =
     \<lparr>columns = map (\<lambda>c. if c = old then new else c) (columns df),
      rows = map (\<lambda>r c. if c = new then r old else if c = old then Null else r c) (rows df)\<rparr>"

definition survey_dimension_map :: "(string \<times> string list) list" where
  "survey_dimension_map =
     [(''Dim_Employee_Engagement'', [''Q1_Recommend'', ''Q9_Proud_Work'']),
      (''Dim_Leadership'', [''Q2_Sup_Feedback'', ''Q10_Sup_Informed'']),
      (''Dim_Enablement'', [''Q3_Enablement_Tools'', ''Q11_Systems_Process'']),
      (''Dim_Development'', [''Q4_Sup_Career_Interest'', ''Q12_Career_Opp'']),
      (''Dim_Delight_Customer'', [''Q5_Quality_Services'', ''Q13_Great_Service'']),
      (''Dim_Company_Confidence'', [''Q6_Trust_Top_Mgmt'', ''Q14_Future_Success'']),
      (''Dim_Culture_Values'', [''Q7_Diversity_Inclusion'', ''Q15_Respect'']),
      (''Dim_ESG'', [''Q8_ESG_Community''])]"

text \<open>\<open>q.split('_')[0]\<close>.\<close>

definition q_prefix :: "string \<Rightarrow> string" where
  "q_prefix q = takeWhile (\<lambda>x. x \<noteq> CHR ''_'') q"

definition survey_match :: "string list \<Rightarrow> string \<Rightarrow> string option" where
  "survey_match cols q = first_where (\<lambda>c. contains c q \<or> startswith c (q_prefix q)) cols"

definition survey_dimension_step :: "string \<times> string list \<Rightarrow> frame \<Rightarrow> frame" where
  "survey_dimension_step dm data =
     (let relevant_cols = somes (map (survey_match (columns data)) (snd dm))
      in if relevant_cols \<noteq> [] then
           set_column (fst dm) (\<lambda>r. cell_map (round_dp 2) (row_mean relevant_cols r)) data
         else set_column (fst dm) (\<lambda>r. Num 0) data)"

definition survey_engagement :: "frame \<Rightarrow> frame" where
  "survey_engagement data =
     (if ''Dim_Employee_Engagement'' \<in> set (columns data) then
        set_column ''engagement_rate'' (\<lambda>r. cell_map rate_of (r ''Dim_Employee_Engagement'')) data
      else data)"

definition survey_stress :: "frame \<Rightarrow> frame" where
  "survey_stress data =
     (if ''Dim_Enablement'' \<in> set (columns data) \<and> ''Dim_Culture_Values'' \<in> set (columns data) then
        set_column ''stress_rate'' (\<lambda>r. cell_map rate_of (r ''Stress_Score''))
          (set_column ''Stress_Score''
             (\<lambda>r. cell_map (\<lambda>avg_support. 6 - avg_support)
                     (cell_map2 (\<lambda>a b. (a + b) / 2) (r ''Dim_Enablement'') (r ''Dim_Culture_Values'')))
             data)
      else data)"

text \<open>
  The \<open>try\<close> block of the attrition rate: \<open>[...][0]\<close> raises \<open>IndexError\<close> when no column
  matches, and the bare \<open>except\<close> assigns 0.0.
\<close>

definition survey_attrition :: "frame \<Rightarrow> frame" where
  "survey_attrition data =
     (case (first_where (\<lambda>c. contains c ''Q1_'' \<or> c = ''Q1'') (columns data),
            first_where (\<lambda>c. contains c ''Q12_'' \<or> c = ''Q12'') (columns data)) of
        (Some q1, Some q12) \<Rightarrow>
          set_column ''attrition_rate'' (\<lambda>r. attrition_of (r q1) (r q12)) data
      | _ \<Rightarrow> set_column ''attrition_rate'' (\<lambda>r. Num 0) data)"

definition calculate_survey_metrics :: "frame \<Rightarrow> frame" where
  "calculate_survey_metrics df =
     (let data0 = (if ''mployee_id'' \<in> set (columns df)
                   then rename_column ''mployee_id'' ''employee_id'' df else df);
          data = (if ''Employee_ID'' \<in> set (columns data0)
                  then rename_column ''Employee_ID'' ''employee_id'' data0 else data0)
      in survey_attrition (survey_stress (survey_engagement (fold survey_dimension_step survey_dimension_map data))))"




section \<open>Frames that extend a frame by assigned columns\<close>

text \<open>
  \<open>extends N df data\<close>: \<open>data\<close> is \<open>df\<close> after assignments to columns named in \<open>N\<close>; the
  columns of \<open>df\<close> come first, the rows correspond, and every cell outside \<open>N\<close> is
  unchanged.
\<close>

definition extends :: "string set \<Rightarrow> frame \<Rightarrow> frame \<Rightarrow> bool" where
  "extends N df data \<longleftrightarrow>
     (\<exists>new. columns data = columns df @ new \<and> set new \<subseteq> N)
     \<and> length (rows data) = length (rows df)
     \<and> (\<forall>i < length (rows df). \<forall>c. c \<notin> N \<longrightarrow> (rows data ! i) c = (rows df ! i) c)"

definition qname :: "string \<Rightarrow> bool" where
  "qname c = startswith c ''Q''"

text \<open>The columns that \<open>calculate_row_metrics\<close> assigns.\<close>

definition row_assigned :: "string list" where
  "row_assigned = map fst dimension_map @
     [''Stress_Score'', ''stress_rate'', ''engagement_rate'', ''attrition_rate'',
      ''Turnover_Risk_Label'', ''quarter'', ''event_season'', ''month'', ''year'']"

text \<open>
  The dimension score of a row as \<open>calculate_row_metrics\<close> defines it: the mean of the
  present values of the columns found for the question numbers, to two decimals; null
  when no column is found.
\<close>

definition row_dimension :: "string list \<Rightarrow> nat list \<Rightarrow> row \<Rightarrow> cell" where
  "row_dimension cols q_nums r =
     (let found = somes (map (get_col cols) q_nums)
      in if found \<noteq> [] then cell_map (round_dp 2) (row_mean found r) else Null)"




text \<open>The columns that \<open>calculate_survey_metrics\<close> assigns after its renamings.\<close>

definition survey_assigned :: "string list" where
  "survey_assigned = map fst survey_dimension_map @
     [''engagement_rate'', ''Stress_Score'', ''stress_rate'', ''attrition_rate'']"

text \<open>The frame of \<open>calculate_survey_metrics\<close> after its two renamings.\<close>

definition survey_base :: "frame \<Rightarrow> frame" where
  "survey_base df =
     (let data0 = (if ''mployee_id'' \<in> set (columns df)
                   then rename_column ''mployee_id'' ''employee_id'' df else df)
      in if ''Employee_ID'' \<in> set (columns data0)
         then rename_column ''Employee_ID'' ''employee_id'' data0 else data0)"

section \<open>Sample frames\<close>







section \<open>Snapshot of the latest submission per employee (routes/metrics.py, utils/risk_engine.py)\<close>

text \<open>
  \<open>df.sort_values(by, ascending=False)\<close> on a column of timestamps (numbers) and NaT
  (null): the rows with a timestamp by descending timestamp, then the rows without one.
  The model sorts stably; pandas does not promise the order of equal timestamps, and the
  properties proved below hold for every such order.
\<close>

fun cell_num :: "cell \<Rightarrow> real" where
  "cell_num (Num x) = x"
| "cell_num _ = 0"

fun has_num :: "cell \<Rightarrow> bool" where
  "has_num (Num x) = True"
| "has_num _ = False"

definition sort_values_desc :: "string \<Rightarrow> row list \<Rightarrow> row list" where
  "sort_values_desc by rs =
     sort_key (\<lambda>r. - cell_num (r by)) (filter (\<lambda>r. has_num (r by)) rs)
     @ filter (\<lambda>r. \<not> has_num (r by)) rs"

text \<open>
  \<open>drop_duplicates(subset=[c], keep='first')\<close>: a row is kept when no earlier row has
  its value in column \<open>c\<close>; null values count as equal to each other.
\<close>

fun drop_seen :: "cell list \<Rightarrow> string \<Rightarrow> row list \<Rightarrow> row list" where
  "drop_seen seen c [] = []"
| "drop_seen seen c (r # rs) =
     (if r c \<in> set seen then drop_seen seen c rs else r # drop_seen (r c # seen) c rs)"

definition drop_duplicates :: "string \<Rightarrow> row list \<Rightarrow> row list" where
  "drop_duplicates c rs = drop_seen [] c rs"

text \<open>
  The expression of both call sites,
  \<open>df.sort_values(date_col, ascending=False).drop_duplicates(subset=['employee_id'], keep='first')\<close>.
\<close>

definition latest_per_employee :: "string \<Rightarrow> frame \<Rightarrow> frame" where
  "latest_per_employee date_col df =
     df\<lparr>rows := drop_duplicates ''employee_id'' (sort_values_desc date_col (rows df))\<rparr>"

































section \<open>Properties of the rate transform and the risk labels\<close>

lemma pct_vals: "pct 1 = 0" "pct 5 = 100" by (simp_all add: pct_def clip_def)
lemma pct_range: "0 \<le> pct x \<and> pct x \<le> 100" by (simp add: pct_def clip_def)
lemma pct_mono: "x \<le> y \<Longrightarrow> pct x \<le> pct y"
  by (simp add: pct_def clip_def min_def max_def)

lemma rint_bounds: "\<lfloor>x\<rfloor> \<le> rint x \<and> rint x \<le> \<lfloor>x\<rfloor> + 1"
  by (simp add: rint_def Let_def)

lemma rint_same_floor:
  assumes "x \<le> y" and "\<lfloor>x\<rfloor> = \<lfloor>y\<rfloor>"
  shows "rint x \<le> rint y"
proof -
  have "x - of_int \<lfloor>x\<rfloor> \<le> y - of_int \<lfloor>y\<rfloor>" using assms by simp
  then show ?thesis using assms(2) by (auto simp: rint_def Let_def)
qed

lemma rint_mono: 
  assumes "x \<le> y" shows "rint x \<le> rint y"
proof (cases "\<lfloor>x\<rfloor> = \<lfloor>y\<rfloor>")
  case True
  then show ?thesis using assms rint_same_floor by blast
next
  case False
  have "\<lfloor>x\<rfloor> \<le> \<lfloor>y\<rfloor>" using assms by (rule floor_mono)
  with False have "\<lfloor>x\<rfloor> + 1 \<le> \<lfloor>y\<rfloor>" by linarith
  then show ?thesis using rint_bounds [of x] rint_bounds [of y] by linarith
qed

lemma rint_of_int: "rint (of_int n) = n" by (simp add: rint_def Let_def)

lemma round_dp_mono: "x \<le> y \<Longrightarrow> round_dp n x \<le> round_dp n y"
  unfolding round_dp_def
  by (intro divide_right_mono) (auto intro!: rint_mono mult_right_mono)

lemma rate_of_mono: "x \<le> y \<Longrightarrow> rate_of x \<le> rate_of y"
  unfolding rate_of_def by (intro round_dp_mono pct_mono)

lemma rate_of_range: "0 \<le> rate_of x \<and> rate_of x \<le> 100"
proof -
  have a: "rint 0 \<le> rint (pct x * 10)" using pct_range [of x] by (intro rint_mono) simp
  have b: "rint (pct x * 10) \<le> rint (of_int 1000)" using pct_range [of x] by (intro rint_mono) simp
  have "rint 0 = 0" using rint_of_int [of 0] by simp
  with a b show ?thesis unfolding rate_of_def round_dp_def rint_of_int by simp
qed

text \<open>
  Claim C9. The Likert-to-percentage transform \<open>pct x = clip (((x - 1) / 4) * 100) 0 100\<close>
  maps 1 to 0 and 5 to 100, is strictly increasing on the interval from 1 to 5 and
  always lies between 0 and 100. The same end points, range and (weak) monotonicity
  hold for \<open>rate_of\<close>, the transform followed by the rounding to one decimal that every
  rate column of the source applies.
\<close>

theorem pct_properties:
  "pct 1 = 0 \<and> pct 5 = 100 \<and> rate_of 1 = 0 \<and> rate_of 5 = 100
   \<and> (\<forall>x y. 1 \<le> x \<and> x < y \<and> y \<le> 5 \<longrightarrow> pct x < pct y)
   \<and> (\<forall>x y. x \<le> y \<longrightarrow> pct x \<le> pct y \<and> rate_of x \<le> rate_of y)
   \<and> (\<forall>x. 0 \<le> pct x \<and> pct x \<le> 100 \<and> 0 \<le> rate_of x \<and> rate_of x \<le> 100)"
proof -
  have v: "pct 1 = 0" "pct 5 = 100" by (simp_all add: pct_def clip_def)
  have r: "rate_of 1 = 0" "rate_of 5 = 100"
    by (simp_all add: rate_of_def round_dp_def v rint_def Let_def)
  have s: "\<And>x y. 1 \<le> x \<and> x < y \<and> y \<le> 5 \<Longrightarrow> pct x < pct y"
    by (simp add: pct_def clip_def min_def max_def)
  show ?thesis using v r s pct_mono rate_of_mono pct_range rate_of_range by blast
qed

theorem pct_properties_witness:
  "(1::real) \<le> 2 \<and> (2::real) < 4 \<and> (4::real) \<le> 5 \<and> pct 2 < pct 4 \<and> rate_of 2 \<le> rate_of 4 \<and> pct 2 = 25 \<and> rate_of 4 = 75"
proof -
  have "pct 2 < pct 4 \<and> rate_of 2 \<le> rate_of 4" using pct_properties by simp
  moreover have "pct 2 = 25 \<and> rate_of 4 = 75"
    by (simp add: rate_of_def round_dp_def pct_def clip_def rint_def Let_def)
  ultimately show ?thesis by simp
qed

text \<open>
  Claim C2. With \<open>metric_type = 'score'\<close> the label is healthy iff \<open>v > 75\<close>, watch
  iff \<open>65 < v \<le> 75\<close>, warning iff \<open>55 \<le> v \<le> 65\<close> and critical iff \<open>v < 55\<close>; with
  any other metric type it is healthy iff \<open>v \<le> 20\<close>, watch iff \<open>20 < v \<le> 35\<close>,
  warning iff \<open>35 < v \<le> 50\<close> and critical iff \<open>v > 50\<close>; a null or NaN input is
  labelled healthy. The boundary values of the specification are included.
\<close>

theorem calculate_risk_label_thresholds:
  "(calculate_risk_label (PFloat v) ''score'' = ''healthy'' \<longleftrightarrow> v > 75)
 \<and> (calculate_risk_label (PFloat v) ''score'' = ''watch'' \<longleftrightarrow> 65 < v \<and> v \<le> 75)
 \<and> (calculate_risk_label (PFloat v) ''score'' = ''warning'' \<longleftrightarrow> 55 \<le> v \<and> v \<le> 65)
 \<and> (calculate_risk_label (PFloat v) ''score'' = ''critical'' \<longleftrightarrow> v < 55)
 \<and> calculate_risk_label (PFloat 75.01) ''score'' = ''healthy''
 \<and> calculate_risk_label (PFloat 75.0) ''score'' = ''watch''
 \<and> calculate_risk_label (PFloat 65.0) ''score'' = ''warning''
 \<and> calculate_risk_label (PFloat 54.99) ''score'' = ''critical''
 \<and> (mt \<noteq> ''score'' \<longrightarrow>
      (calculate_risk_label (PFloat v) mt = ''healthy'' \<longleftrightarrow> v \<le> 20)
    \<and> (calculate_risk_label (PFloat v) mt = ''watch'' \<longleftrightarrow> 20 < v \<and> v \<le> 35)
    \<and> (calculate_risk_label (PFloat v) mt = ''warning'' \<longleftrightarrow> 35 < v \<and> v \<le> 50)
    \<and> (calculate_risk_label (PFloat v) mt = ''critical'' \<longleftrightarrow> v > 50))
 \<and> calculate_risk_label PNone mt = ''healthy''
 \<and> calculate_risk_label PNaN mt = ''healthy''
 \<and> calculate_risk_label PInf ''score'' = ''healthy''
 \<and> calculate_risk_label PNegInf ''score'' = ''critical''
 \<and> (mt \<noteq> ''score'' \<longrightarrow>
      calculate_risk_label PInf mt = ''critical'' \<and> calculate_risk_label PNegInf mt = ''healthy'')"
  by auto

theorem calculate_risk_label_thresholds_witness:
  "''burnout'' \<noteq> ''score'' \<and> calculate_risk_label (PFloat 35) ''burnout'' = ''watch'' \<and> (20::real) < 35
   \<and> calculate_risk_label (PFloat 35) ''score'' = ''critical''"
  using calculate_risk_label_thresholds [of 35 "''burnout''"] by simp

section \<open>The department sync writes one of three labels\<close>










section \<open>The narrative repair pipeline\<close>

lemma quote_old_codes:
  "quote_old = [44, 32, 39, 34, 39, 41, 46, 114, 101, 112, 108, 97, 99, 101, 40]"
  by (simp add: quote_old_def U_def)

lemma strip_fences_fenced_input: \<open>strip_fences fenced_input = U ''{"summary": "ok"}''\<close>
  by (simp add: strip_fences_def fenced_input_def U_def fence_def startswith_def endswith_def
      strip_def lstrip_def rstrip_def is_space_def is_alpha_def Let_def)

lemma clean_text_fenced_input: \<open>clean_text fenced_input = U ''{"summary": "ok"}''\<close>
  unfolding clean_text_def strip_fences_fenced_input
  by (simp add: quote_old_codes U_def cut_braces_def rfind_char_def strip_control_def
      normalize_quotes_def startswith_def)

lemma clean_text_not_json: \<open>clean_text (U ''not json at all'') = U ''not json at all''\<close>
  by (simp add: clean_text_def quote_old_codes U_def cut_braces_def rfind_char_def
      strip_control_def normalize_quotes_def startswith_def strip_fences_def fence_def)

lemma strip_fenced_input: "strip fenced_input = fenced_input"
  by (simp add: fenced_input_def U_def strip_def lstrip_def rstrip_def is_space_def)

lemma strip_not_json: "strip (U ''not json at all'') = U ''not json at all''"
  by (simp add: U_def strip_def lstrip_def rstrip_def is_space_def)

lemma strip_curly_input: "strip curly_input = curly_input"
  by (simp add: curly_input_def U_def strip_def lstrip_def rstrip_def is_space_def)

lemma clean_text_curly_input: "clean_text curly_input = curly_input"
  by (simp add: clean_text_def quote_old_codes curly_input_def U_def cut_braces_def
      rfind_char_def strip_control_def normalize_quotes_def startswith_def strip_fences_def
      fence_def)

text \<open>
  What holds of the claim: no exception reaches the caller, a failure of the client, of
  the cleaning or of the parser gives the placeholder, and the two inputs of the
  specification are handed to the parser as \<open>{"summary": "ok"}\<close> and unchanged.
\<close>

lemma generate_ai_summary_never_raises: "\<exists>j. generate_ai_summary loads response = Inr j"
  by (simp add: generate_ai_summary_def split: sum.splits option.splits)

lemma generate_ai_summary_result:
  "generate_ai_summary loads (Inr (Some content)) =
     Inr (case loads (clean_text (strip content)) of Inl e \<Rightarrow> placeholder | Inr j \<Rightarrow> j)"
  by (simp add: generate_ai_summary_def clean_llm_json_def split: sum.splits)

lemma generate_ai_summary_failure:
  "generate_ai_summary loads (Inl e) = Inr placeholder"
  "generate_ai_summary loads (Inr None) = Inr placeholder"
  by (simp_all add: generate_ai_summary_def)

lemma generate_ai_summary_fenced:
  \<open>generate_ai_summary loads (Inr (Some fenced_input)) =
     Inr (case loads (U ''{"summary": "ok"}'') of Inl e \<Rightarrow> placeholder | Inr j \<Rightarrow> j)\<close>
  by (simp only: generate_ai_summary_result strip_fenced_input clean_text_fenced_input)

lemma generate_ai_summary_not_json:
  \<open>generate_ai_summary loads (Inr (Some (U ''not json at all''))) =
     Inr (case loads (U ''not json at all'') of Inl e \<Rightarrow> placeholder | Inr j \<Rightarrow> j)\<close>
  by (simp only: generate_ai_summary_result strip_not_json clean_text_not_json)

text \<open>
  Claim C1, at the input \<open>{\<ldquo>summary\<rdquo>: \<ldquo>ok\<rdquo>}\<close> written with the curly quotes
  U+201C and U+201D. The claim has the pipeline normalize them to straight quotes before
  parsing. The code leaves the text as it is, curly quotes included: its \<open>replace\<close>
  call looks for the text \<^verbatim>\<open>, '"').replace(\<close>. The parser therefore receives the
  curly quotes, and the summary is the placeholder whenever the parser rejects them.
\<close>

theorem curly_quotes_reach_parser:
  "clean_text (strip curly_input) = curly_input
   \<and> 8220 \<in> set (clean_text (strip curly_input))
   \<and> 8221 \<in> set (clean_text (strip curly_input))
   \<and> 34 \<notin> set (clean_text (strip curly_input))
   \<and> generate_ai_summary loads (Inr (Some curly_input)) =
       Inr (case loads curly_input of Inl e \<Rightarrow> placeholder | Inr j \<Rightarrow> j)"
proof -
  have c: "clean_text (strip curly_input) = curly_input"
    by (simp only: strip_curly_input clean_text_curly_input)
  have m: "8220 \<in> set curly_input" "8221 \<in> set curly_input" "34 \<notin> set curly_input"
    by (simp_all add: curly_input_def U_def)
  have g: "generate_ai_summary loads (Inr (Some curly_input)) =
       Inr (case loads curly_input of Inl e \<Rightarrow> placeholder | Inr j \<Rightarrow> j)"
    by (simp only: generate_ai_summary_result c)
  show ?thesis using c m g by simp
qed

section \<open>Quarter grouping of the metrics filter\<close>

lemma empty_quarter_row_fields:
  "empty_quarter_row d q y ''Quarter'' = Some (VStr q)"
  "empty_quarter_row d q y ''Response_Count'' = Some (VInt 0)"
  "empty_quarter_row d q y ''Burnout_Rate'' = Some VNone"
  "empty_quarter_row d q y ''Turnover_Risk'' = Some VNone"
  "empty_quarter_row d q y ''eNPS'' = Some VNone"
  "empty_quarter_row d q y ''Overall_Engagement'' = Some VNone"
  by (simp_all add: empty_quarter_row_def)

lemma aggregate_dataframe_quarter: "aggregate_dataframe df d y q ''Quarter'' = Some q"
  by (simp add: aggregate_dataframe_def)

lemma quarter_entry_quarter: "quarter_entry df d y q ''Quarter'' = Some (VStr q)"
  by (simp add: quarter_entry_def Let_def empty_quarter_row_fields aggregate_dataframe_quarter)

lemma quarter_entry_empty:
  "filter (\<lambda>r. upper_is (upper q) (r ''Quarter'')) (rows df) = [] \<Longrightarrow>
   quarter_entry df d y q = empty_quarter_row d q y"
  by (simp add: quarter_entry_def Let_def select_rows_def)

lemma upper_quarters:
  "upper ''Q1'' = ''Q1''" "upper ''Q2'' = ''Q2''" "upper ''Q3'' = ''Q3''" "upper ''Q4'' = ''Q4''"
  by (simp_all add: upper_def upper_char_def)

lemma columns_select_rows: "columns (select_rows p df) = columns df"
  by (simp add: select_rows_def)

lemma rows_select_rows: "rows (select_rows p df) = filter p (rows df)"
  by (simp add: select_rows_def)

lemma columns_quarter_base: "columns (quarter_base n df d y) = columns df"
  by (simp add: quarter_base_def Let_def columns_select_rows)

lemma filter_metrics_quarter_run:
  assumes "''Quarter'' \<in> set (columns df)"
    and "truthy department \<longrightarrow> ''Department'' \<in> set (columns df)"
  shows "filter_metrics now_year df department quarter year0 (Some ''quarter'') =
           Inr (map (quarter_entry (quarter_base now_year df department year0) department
                      (case year0 of None \<Rightarrow> now_year | Some y \<Rightarrow> y)) [''Q1'', ''Q2'', ''Q3'', ''Q4''])"
  using assms
  by (simp add: filter_metrics_def quarter_base_def Let_def columns_select_rows)

lemma quarter_base_matching:
  "filter (\<lambda>r. upper_is q (r ''Quarter'')) (rows (quarter_base now_year df department year0))
     = matching_rows now_year df department year0 q"
  by (auto simp: quarter_base_def matching_rows_def Let_def rows_select_rows columns_select_rows
      intro!: filter_cong)

text \<open>
  Claim C4. With \<open>group_by = 'quarter'\<close> (and the \<open>Quarter\<close> column, and the
  \<open>Department\<close> column when a department is given, present in the frame) the result has
  exactly four entries, for Q1, Q2, Q3 and Q4 in this order; the entry of a quarter
  without a row matching the year, department and quarter has \<open>Response_Count = 0\<close> and
  \<open>None\<close> in \<open>Burnout_Rate\<close>, \<open>Turnover_Risk\<close>, \<open>eNPS\<close> and \<open>Overall_Engagement\<close>.
\<close>

theorem filter_metrics_group_by_quarter:
  assumes cq: "''Quarter'' \<in> set (columns df)"
    and cd: "truthy department \<longrightarrow> ''Department'' \<in> set (columns df)"
  shows "\<exists>e1 e2 e3 e4.
      filter_metrics now_year df department quarter year0 (Some ''quarter'') = Inr [e1, e2, e3, e4]
    \<and> e1 ''Quarter'' = Some (VStr ''Q1'') \<and> e2 ''Quarter'' = Some (VStr ''Q2'')
    \<and> e3 ''Quarter'' = Some (VStr ''Q3'') \<and> e4 ''Quarter'' = Some (VStr ''Q4'')
    \<and> (\<forall>(e, q) \<in> set [(e1, ''Q1''), (e2, ''Q2''), (e3, ''Q3''), (e4, ''Q4'')].
          matching_rows now_year df department year0 q = [] \<longrightarrow>
            e ''Response_Count'' = Some (VInt 0) \<and> e ''Burnout_Rate'' = Some VNone
          \<and> e ''Turnover_Risk'' = Some VNone \<and> e ''eNPS'' = Some VNone
          \<and> e ''Overall_Engagement'' = Some VNone)"
proof -
  define base where "base = quarter_base now_year df department year0"
  define y where "y = (case year0 of None \<Rightarrow> now_year | Some y \<Rightarrow> y)"
  define ent where "ent = quarter_entry base department y"
  have run: "filter_metrics now_year df department quarter year0 (Some ''quarter'')
               = Inr [ent ''Q1'', ent ''Q2'', ent ''Q3'', ent ''Q4'']"
    unfolding ent_def base_def y_def using filter_metrics_quarter_run [OF cq cd] by simp
  have lab: "\<And>q. ent q ''Quarter'' = Some (VStr q)"
    unfolding ent_def by (rule quarter_entry_quarter)
  have emp: "ent q ''Response_Count'' = Some (VInt 0) \<and> ent q ''Burnout_Rate'' = Some VNone
          \<and> ent q ''Turnover_Risk'' = Some VNone \<and> ent q ''eNPS'' = Some VNone
          \<and> ent q ''Overall_Engagement'' = Some VNone"
    if "upper q = q" and "matching_rows now_year df department year0 q = []" for q
  proof -
    have "filter (\<lambda>r. upper_is (upper q) (r ''Quarter'')) (rows base) = []"
      unfolding base_def using that quarter_base_matching [of q now_year df department year0] by simp
    then have "ent q = empty_quarter_row department q y"
      unfolding ent_def by (rule quarter_entry_empty)
    then show ?thesis by (simp add: empty_quarter_row_fields)
  qed
  have all: "\<forall>(e, q) \<in> set [(ent ''Q1'', ''Q1''), (ent ''Q2'', ''Q2''), (ent ''Q3'', ''Q3''), (ent ''Q4'', ''Q4'')].
          matching_rows now_year df department year0 q = [] \<longrightarrow>
            e ''Response_Count'' = Some (VInt 0) \<and> e ''Burnout_Rate'' = Some VNone
          \<and> e ''Turnover_Risk'' = Some VNone \<and> e ''eNPS'' = Some VNone
          \<and> e ''Overall_Engagement'' = Some VNone"
    using emp [OF upper_quarters(1)] emp [OF upper_quarters(2)]
          emp [OF upper_quarters(3)] emp [OF upper_quarters(4)]
    by simp
  show ?thesis
    apply (rule exI [of _ "ent ''Q1''"])
    apply (rule exI [of _ "ent ''Q2''"])
    apply (rule exI [of _ "ent ''Q3''"])
    apply (rule exI [of _ "ent ''Q4''"])
    apply (intro conjI)
         apply (rule run)
        apply (rule lab)
       apply (rule lab)
      apply (rule lab)
     apply (rule lab)
    apply (rule all)
    done
qed

lemma metrics_frame_columns:
  "''Quarter'' \<in> set (columns metrics_frame)" "truthy None \<longrightarrow> ''Department'' \<in> set (columns metrics_frame)"
  by (simp_all add: metrics_frame_def)

lemma metrics_frame_no_q3:
  "matching_rows 2025 metrics_frame None (Some 2024) ''Q3'' = []"
  by (simp add: matching_rows_def metrics_frame_def upper_def upper_char_def)

lemma metrics_frame_q1:
  "quarter_entry (quarter_base 2025 metrics_frame None (Some 2024)) None 2024 ''Q1'' ''Response_Count''
     = Some (VInt 10)"
  by (simp add: quarter_entry_def quarter_base_def metrics_frame_def select_rows_def Let_def
      upper_def upper_char_def aggregate_dataframe_def aggregate_column_def sum_columns_def
      column_cells_def py_int_def)

theorem filter_metrics_group_by_quarter_witness:
  "\<exists>e1 e2 e3 e4.
      filter_metrics 2025 metrics_frame None None (Some 2024) (Some ''quarter'') = Inr [e1, e2, e3, e4]
    \<and> matching_rows 2025 metrics_frame None (Some 2024) ''Q3'' = []
    \<and> e1 ''Response_Count'' = Some (VInt 10)
    \<and> e3 ''Quarter'' = Some (VStr ''Q3'')
    \<and> e3 ''Response_Count'' = Some (VInt 0) \<and> e3 ''Burnout_Rate'' = Some VNone"
proof -
  from filter_metrics_group_by_quarter [OF metrics_frame_columns, of 2025 None "Some 2024"]
  obtain e1 e2 e3 e4 where
    run: "filter_metrics 2025 metrics_frame None None (Some 2024) (Some ''quarter'') = Inr [e1, e2, e3, e4]"
    and q3: "e3 ''Quarter'' = Some (VStr ''Q3'')"
    and emp: "matching_rows 2025 metrics_frame None (Some 2024) ''Q3'' = [] \<longrightarrow>
            e3 ''Response_Count'' = Some (VInt 0) \<and> e3 ''Burnout_Rate'' = Some VNone"
    by auto
  have "e1 = quarter_entry (quarter_base 2025 metrics_frame None (Some 2024)) None 2024 ''Q1''"
    using run filter_metrics_quarter_run [OF metrics_frame_columns, of 2025 None "Some 2024"] by simp
  then have e1: "e1 ''Response_Count'' = Some (VInt 10)" by (simp only: metrics_frame_q1)
  show ?thesis using run q3 emp metrics_frame_no_q3 e1 by blast
qed

section \<open>Column assignments keep the other cells\<close>

lemma columns_set_column:
  "columns (set_column c f d) = (if c \<in> set (columns d) then columns d else columns d @ [c])"
  by (simp add: set_column_def)

lemma mem_columns_set_column: "c \<in> set (columns (set_column c f d))"
  by (simp add: set_column_def)

lemma length_rows_set_column: "length (rows (set_column c f d)) = length (rows d)"
  by (simp add: set_column_def)

lemma nth_rows_set_column:
  "i < length (rows d) \<Longrightarrow>
   (rows (set_column c f d) ! i) c' = (if c' = c then f (rows d ! i) else (rows d ! i) c')"
  by (simp add: set_column_def)

lemma extends_refl: "extends N df df"
  by (simp add: extends_def)

lemma extends_length: "extends N df data \<Longrightarrow> length (rows data) = length (rows df)"
  by (simp add: extends_def)

lemma extends_cell:
  "extends N df data \<Longrightarrow> i < length (rows df) \<Longrightarrow> c \<notin> N \<Longrightarrow> (rows data ! i) c = (rows df ! i) c"
  by (simp add: extends_def)

lemma extends_set_column:
  assumes "extends N df data" and "c \<in> N"
  shows "extends N df (set_column c f data)"
proof -
  from assms(1) obtain new where n: "columns data = columns df @ new" "set new \<subseteq> N"
    and l: "length (rows data) = length (rows df)"
    and v: "\<forall>i < length (rows df). \<forall>c. c \<notin> N \<longrightarrow> (rows data ! i) c = (rows df ! i) c"
    unfolding extends_def by blast
  have "\<exists>new'. columns (set_column c f data) = columns df @ new' \<and> set new' \<subseteq> N"
  proof (cases "c \<in> set (columns data)")
    case True
    then show ?thesis using n by (simp add: columns_set_column)
  next
    case False
    then have "columns (set_column c f data) = columns df @ (new @ [c])"
      using n by (simp add: columns_set_column)
    moreover have "set (new @ [c]) \<subseteq> N" using n assms(2) by simp
    ultimately show ?thesis by blast
  qed
  moreover have "\<forall>i < length (rows df). \<forall>c'. c' \<notin> N \<longrightarrow>
      (rows (set_column c f data) ! i) c' = (rows df ! i) c'"
    using v l assms(2) by (auto simp: nth_rows_set_column)
  ultimately show ?thesis
    unfolding extends_def using l by (simp add: length_rows_set_column)
qed

lemma first_where_Some: "first_where p xs = Some x \<Longrightarrow> p x \<and> x \<in> set xs"
  unfolding first_where_def
  by (cases "filter p xs") (auto dest: filter_eq_ConsD)

lemma first_where_extends:
  assumes "extends N df data" and "\<forall>c \<in> N. \<not> p c"
  shows "first_where p (columns data) = first_where p (columns df)"
proof -
  from assms(1) obtain new where n: "columns data = columns df @ new" "set new \<subseteq> N"
    unfolding extends_def by blast
  have "filter p new = []" using n(2) assms(2) by (auto simp: filter_empty_conv)
  then show ?thesis by (simp add: first_where_def n(1))
qed

lemma somes_mem: "x \<in> set (somes xs) \<Longrightarrow> Some x \<in> set xs"
  by (induction xs rule: somes.induct) auto

lemma row_mean_cong:
  "(\<forall>c \<in> set cols. r c = r' c) \<Longrightarrow> row_mean cols r = row_mean cols r'"
  by (simp add: row_mean_def cong: map_cong)

lemma fold_steps:
  assumes step: "\<And>a data. a \<in> set as \<Longrightarrow> extends N df data \<Longrightarrow>
      extends N df (step a data)
      \<and> (\<forall>i < length (rows df). (rows (step a data) ! i) (name a) = target a (rows df ! i))
      \<and> (\<forall>c. c \<noteq> name a \<longrightarrow> (\<forall>i < length (rows df). (rows (step a data) ! i) c = (rows data ! i) c))"
    and "distinct (map name as)" and "extends N df data"
  shows "extends N df (fold step as data)
     \<and> (\<forall>a \<in> set as. \<forall>i < length (rows df). (rows (fold step as data) ! i) (name a) = target a (rows df ! i))
     \<and> (\<forall>c. c \<notin> name ` set as \<longrightarrow> (\<forall>i < length (rows df). (rows (fold step as data) ! i) c = (rows data ! i) c))"
  using assms
proof (induction as arbitrary: data)
  case Nil
  then show ?case by simp
next
  case (Cons a as)
  have s: "extends N df (step a data)"
    "\<forall>i < length (rows df). (rows (step a data) ! i) (name a) = target a (rows df ! i)"
    "\<forall>c. c \<noteq> name a \<longrightarrow> (\<forall>i < length (rows df). (rows (step a data) ! i) c = (rows data ! i) c)"
    using Cons.prems(1) [of a data] Cons.prems(3) by simp_all
  have d: "distinct (map name as)" "name a \<notin> name ` set as" using Cons.prems(2) by auto
  have ih: "extends N df (fold step as (step a data))
     \<and> (\<forall>b \<in> set as. \<forall>i < length (rows df). (rows (fold step as (step a data)) ! i) (name b) = target b (rows df ! i))
     \<and> (\<forall>c. c \<notin> name ` set as \<longrightarrow> (\<forall>i < length (rows df). (rows (fold step as (step a data)) ! i) c = (rows (step a data) ! i) c))"
    by (rule Cons.IH [OF _ d(1) s(1)]) (use Cons.prems(1) in simp)
  show ?case
    using ih s d(2) by auto
qed

section \<open>The dimension loop of \<open>calculate_row_metrics\<close>\<close>


lemma row_assigned_names:
  "row_assigned = [''Dim_Employee_Engagement'', ''Dim_Leadership'', ''Dim_Enablement'', ''Dim_Development'',
     ''Dim_Delight_Customer'', ''Dim_Company_Confidence'', ''Dim_Culture_Values'', ''Dim_ESG'',
     ''Stress_Score'', ''stress_rate'', ''engagement_rate'', ''attrition_rate'',
      ''Turnover_Risk_Label'', ''quarter'', ''event_season'', ''month'', ''year'']"
  by (simp add: row_assigned_def dimension_map_def)

lemma row_assigned_not_qname: "c \<in> set row_assigned \<Longrightarrow> \<not> qname c"
  by (auto simp: row_assigned_names qname_def startswith_def)

lemma qname_not_assigned: "qname c \<Longrightarrow> c \<notin> set row_assigned"
  using row_assigned_not_qname by blast

lemma startswith_Cons: "startswith c (x # p) \<longleftrightarrow> (\<exists>c'. c = x # c' \<and> startswith c' p)"
  by (cases c) (auto simp: startswith_def)

lemma startswith_Nil: "startswith c []"
  by (simp add: startswith_def)

lemma qname_iff: "qname c \<longleftrightarrow> (\<exists>c'. c = CHR ''Q'' # c')"
  by (simp add: qname_def startswith_Cons startswith_Nil)

lemma get_col_pred_qname:
  "startswith c (''Q'' @ str_nat n @ ''_'') \<or> c = ''Q'' @ str_nat n \<Longrightarrow> qname c"
  by (auto simp: qname_iff startswith_Cons)

lemma get_col_qname: "get_col cols n = Some c \<Longrightarrow> qname c"
  unfolding get_col_def
  by (drule first_where_Some) (blast intro: get_col_pred_qname)

lemma get_col_extends:
  assumes "extends (set row_assigned) df data"
  shows "get_col (columns data) n = get_col (columns df) n"
  unfolding get_col_def
proof (rule first_where_extends [OF assms], rule ballI)
  fix c assume "c \<in> set row_assigned"
  then have "\<not> qname c" by (rule row_assigned_not_qname)
  then show "\<not> (startswith c (''Q'' @ str_nat n @ ''_'') \<or> c = ''Q'' @ str_nat n)"
    using get_col_pred_qname by blast
qed

lemma found_cols_unassigned:
  "c \<in> set (somes (map (get_col cols) q_nums)) \<Longrightarrow> c \<notin> set row_assigned"
proof -
  assume "c \<in> set (somes (map (get_col cols) q_nums))"
  then have "Some c \<in> set (map (get_col cols) q_nums)" by (rule somes_mem)
  then obtain n where "get_col cols n = Some c" by auto
  then have "qname c" by (rule get_col_qname)
  then show ?thesis by (rule qname_not_assigned)
qed

lemma row_dimension_step_props:
  assumes a: "a \<in> set dimension_map" and e: "extends (set row_assigned) df data"
  shows "extends (set row_assigned) df (row_dimension_step a data)
      \<and> (\<forall>i < length (rows df). (rows (row_dimension_step a data) ! i) (fst a)
             = row_dimension (columns df) (snd a) (rows df ! i))
      \<and> (\<forall>c. c \<noteq> fst a \<longrightarrow> (\<forall>i < length (rows df).
             (rows (row_dimension_step a data) ! i) c = (rows data ! i) c))"
proof -
  define cols where "cols = somes (map (get_col (columns df)) (snd a))"
  have "get_col (columns data) = get_col (columns df)"
    by (rule ext) (rule get_col_extends [OF e])
  then have cols': "somes (map (get_col (columns data)) (snd a)) = cols"
    unfolding cols_def by simp
  have na: "fst a \<in> set row_assigned" using a by (auto simp: row_assigned_def)
  have l: "length (rows data) = length (rows df)" using e by (rule extends_length)
  have m: "row_mean cols (rows data ! i) = row_mean cols (rows df ! i)" if "i < length (rows df)" for i
  proof (rule row_mean_cong, rule ballI)
    fix c assume "c \<in> set cols"
    then have "c \<notin> set row_assigned" unfolding cols_def by (rule found_cols_unassigned)
    then show "(rows data ! i) c = (rows df ! i) c" using extends_cell [OF e that] by simp
  qed
  show ?thesis
    unfolding row_dimension_step_def Let_def cols' row_dimension_def cols_def [symmetric]
    using l m by (auto simp: extends_set_column [OF e na] nth_rows_set_column)
qed

lemma distinct_dimension_names: "distinct (map fst dimension_map)"
  by (simp add: dimension_map_def)

lemma dimensions_fold:
  "extends (set row_assigned) df (fold row_dimension_step dimension_map df)
   \<and> (\<forall>a \<in> set dimension_map. \<forall>i < length (rows df).
         (rows (fold row_dimension_step dimension_map df) ! i) (fst a)
           = row_dimension (columns df) (snd a) (rows df ! i))"
  using fold_steps [where step = row_dimension_step and name = fst and N = "set row_assigned"
      and target = "\<lambda>a. row_dimension (columns df) (snd a)" and as = dimension_map and df = df and data = df,
      OF row_dimension_step_props distinct_dimension_names extends_refl]
  by blast

section \<open>The later steps of \<open>calculate_row_metrics\<close>\<close>



lemma length_row_stress: "length (rows (row_stress data)) = length (rows data)"
  by (simp add: row_stress_def length_rows_set_column)

lemma length_row_engagement: "length (rows (row_engagement data)) = length (rows data)"
  by (simp add: row_engagement_def length_rows_set_column)

lemma length_row_attrition: "length (rows (row_attrition data)) = length (rows data)"
  by (simp add: row_attrition_def length_rows_set_column split: option.splits)

lemma length_row_temporal: "length (rows (row_temporal hol tdt data)) = length (rows data)"
  by (simp add: row_temporal_def Let_def length_rows_set_column)

lemma extends_row_stress:
  "extends (set row_assigned) df data \<Longrightarrow> extends (set row_assigned) df (row_stress data)"
  by (simp add: row_stress_def extends_set_column row_assigned_names)

lemma extends_row_engagement:
  "extends (set row_assigned) df data \<Longrightarrow> extends (set row_assigned) df (row_engagement data)"
  by (simp add: row_engagement_def extends_set_column row_assigned_names)

lemma extends_row_attrition:
  "extends (set row_assigned) df data \<Longrightarrow> extends (set row_assigned) df (row_attrition data)"
  by (simp add: row_attrition_def extends_set_column row_assigned_names split: option.splits)








section \<open>The cells that \<open>calculate_row_metrics\<close> computes\<close>



lemma row_stages:
  fixes df :: frame
  defines "d1 \<equiv> fold row_dimension_step dimension_map df"
  shows "extends (set row_assigned) df (row_attrition (row_engagement (row_stress d1)))"
    and "extends (set row_assigned) df (row_engagement (row_stress d1))"
    and "extends (set row_assigned) df (row_stress d1)"
    and "extends (set row_assigned) df d1"
proof -
  show e1: "extends (set row_assigned) df d1" unfolding d1_def using dimensions_fold by blast
  show e2: "extends (set row_assigned) df (row_stress d1)" by (rule extends_row_stress [OF e1])
  show e3: "extends (set row_assigned) df (row_engagement (row_stress d1))"
    by (rule extends_row_engagement [OF e2])
  show "extends (set row_assigned) df (row_attrition (row_engagement (row_stress d1)))"
    by (rule extends_row_attrition [OF e3])
qed

lemma length_calculate_row_metrics:
  "length (rows (calculate_row_metrics hol tdt df)) = length (rows df)"
  unfolding calculate_row_metrics_def length_row_temporal
  by (rule extends_length [OF row_stages(1)])




section \<open>The dimension loop of \<open>calculate_dimensions\<close>\<close>

lemma dimension_step_generic:
  assumes e: "extends N df data" and na: "name \<in> N"
    and pq: "\<forall>q \<in> set qs. \<forall>c. P q c \<longrightarrow> c \<notin> N"
  shows "extends N df
           (if somes (map (\<lambda>q. first_where (P q) (columns data)) qs) \<noteq> []
            then set_column name (\<lambda>r. g (row_mean (somes (map (\<lambda>q. first_where (P q) (columns data)) qs)) r)) data
            else set_column name (\<lambda>r. dflt) data)"
    and "\<forall>i < length (rows df).
           (rows (if somes (map (\<lambda>q. first_where (P q) (columns data)) qs) \<noteq> []
            then set_column name (\<lambda>r. g (row_mean (somes (map (\<lambda>q. first_where (P q) (columns data)) qs)) r)) data
            else set_column name (\<lambda>r. dflt) data) ! i) name
           = (if somes (map (\<lambda>q. first_where (P q) (columns df)) qs) \<noteq> []
              then g (row_mean (somes (map (\<lambda>q. first_where (P q) (columns df)) qs)) (rows df ! i))
              else dflt)"
    and "\<forall>c. c \<noteq> name \<longrightarrow> (\<forall>i < length (rows df).
           (rows (if somes (map (\<lambda>q. first_where (P q) (columns data)) qs) \<noteq> []
            then set_column name (\<lambda>r. g (row_mean (somes (map (\<lambda>q. first_where (P q) (columns data)) qs)) r)) data
            else set_column name (\<lambda>r. dflt) data) ! i) c = (rows data ! i) c)"
proof -
  define cols where "cols = somes (map (\<lambda>q. first_where (P q) (columns df)) qs)"
  have "map (\<lambda>q. first_where (P q) (columns data)) qs = map (\<lambda>q. first_where (P q) (columns df)) qs"
  proof (rule map_cong [OF refl])
    fix q assume "q \<in> set qs"
    then have "\<forall>c \<in> N. \<not> P q c" using pq by blast
    then show "first_where (P q) (columns data) = first_where (P q) (columns df)"
      by (rule first_where_extends [OF e])
  qed
  then have cols': "somes (map (\<lambda>q. first_where (P q) (columns data)) qs) = cols"
    unfolding cols_def by (rule arg_cong [where f = somes])
  have l: "length (rows data) = length (rows df)" using e by (rule extends_length)
  have m: "row_mean cols (rows data ! i) = row_mean cols (rows df ! i)" if "i < length (rows df)" for i
  proof (rule row_mean_cong, rule ballI)
    fix c assume "c \<in> set cols"
    then have "Some c \<in> set (map (\<lambda>q. first_where (P q) (columns df)) qs)"
      unfolding cols_def by (rule somes_mem)
    then obtain q where "q \<in> set qs" "first_where (P q) (columns df) = Some c" by auto
    then have "c \<notin> N" using pq first_where_Some by metis
    then show "(rows data ! i) c = (rows df ! i) c" using extends_cell [OF e that] by simp
  qed
  show "extends N df
           (if somes (map (\<lambda>q. first_where (P q) (columns data)) qs) \<noteq> []
            then set_column name (\<lambda>r. g (row_mean (somes (map (\<lambda>q. first_where (P q) (columns data)) qs)) r)) data
            else set_column name (\<lambda>r. dflt) data)"
    by (simp add: extends_set_column [OF e na])
  show "\<forall>i < length (rows df).
           (rows (if somes (map (\<lambda>q. first_where (P q) (columns data)) qs) \<noteq> []
            then set_column name (\<lambda>r. g (row_mean (somes (map (\<lambda>q. first_where (P q) (columns data)) qs)) r)) data
            else set_column name (\<lambda>r. dflt) data) ! i) name
           = (if somes (map (\<lambda>q. first_where (P q) (columns df)) qs) \<noteq> []
              then g (row_mean (somes (map (\<lambda>q. first_where (P q) (columns df)) qs)) (rows df ! i))
              else dflt)"
    unfolding cols' cols_def [symmetric] using l m by (simp add: nth_rows_set_column)
  show "\<forall>c. c \<noteq> name \<longrightarrow> (\<forall>i < length (rows df).
           (rows (if somes (map (\<lambda>q. first_where (P q) (columns data)) qs) \<noteq> []
            then set_column name (\<lambda>r. g (row_mean (somes (map (\<lambda>q. first_where (P q) (columns data)) qs)) r)) data
            else set_column name (\<lambda>r. dflt) data) ! i) c = (rows data ! i) c)"
    using l by (simp add: nth_rows_set_column)
qed







section \<open>Column matching of \<open>calculate_survey_metrics\<close>\<close>

lemma calculate_survey_metrics_base:
  "calculate_survey_metrics df =
     survey_attrition (survey_stress (survey_engagement
       (fold survey_dimension_step survey_dimension_map (survey_base df))))"
  by (simp add: calculate_survey_metrics_def survey_base_def Let_def)

lemma survey_assigned_names:
  "survey_assigned = [''Dim_Employee_Engagement'', ''Dim_Leadership'', ''Dim_Enablement'', ''Dim_Development'',
     ''Dim_Delight_Customer'', ''Dim_Company_Confidence'', ''Dim_Culture_Values'', ''Dim_ESG'',
     ''engagement_rate'', ''Stress_Score'', ''stress_rate'', ''attrition_rate'']"
  by (simp add: survey_assigned_def survey_dimension_map_def)

lemma survey_assigned_no_Q: "c \<in> set survey_assigned \<Longrightarrow> CHR ''Q'' \<notin> set c"
  by (auto simp: survey_assigned_names)

lemma has_Q_unassigned: "CHR ''Q'' \<in> set c \<Longrightarrow> c \<notin> set survey_assigned"
  using survey_assigned_no_Q by blast

lemma startswith_set: "startswith c p \<Longrightarrow> set p \<subseteq> set c"
  unfolding startswith_def by (metis set_take_subset)

lemma contains_set: "contains c q \<Longrightarrow> set q \<subseteq> set c"
proof (induction c)
  case Nil
  then show ?case by simp
next
  case (Cons x xs)
  from Cons.prems have "startswith (x # xs) q \<or> contains xs q" by simp
  then show ?case
  proof
    assume "startswith (x # xs) q"
    then show ?thesis by (rule startswith_set)
  next
    assume "contains xs q"
    then have "set q \<subseteq> set xs" by (rule Cons.IH)
    then show ?thesis by auto
  qed
qed

lemma length_rename_column: "length (rows (rename_column old new df)) = length (rows df)"
  by (simp add: rename_column_def)




lemma length_survey_base: "length (rows (survey_base df)) = length (rows df)"
  by (simp add: survey_base_def Let_def length_rename_column)



lemma survey_queries:
  "a \<in> set survey_dimension_map \<Longrightarrow> q \<in> set (snd a) \<Longrightarrow> CHR ''Q'' \<in> set q \<and> CHR ''Q'' \<in> set (q_prefix q)"
  by (auto simp: survey_dimension_map_def q_prefix_def)

lemma survey_pred_has_Q:
  assumes "a \<in> set survey_dimension_map" and "q \<in> set (snd a)"
    and "contains c q \<or> startswith c (q_prefix q)"
  shows "CHR ''Q'' \<in> set c"
  using assms survey_queries [OF assms(1,2)] contains_set startswith_set by blast

section \<open>The dimension loop of \<open>calculate_survey_metrics\<close>\<close>

lemma survey_dimension_step_props:
  assumes a: "a \<in> set survey_dimension_map" and e: "extends (set survey_assigned) base data"
  shows "extends (set survey_assigned) base (survey_dimension_step a data)
      \<and> (\<forall>i < length (rows base). (rows (survey_dimension_step a data) ! i) (fst a)
             = (if somes (map (survey_match (columns base)) (snd a)) \<noteq> []
                then cell_map (round_dp 2) (row_mean (somes (map (survey_match (columns base)) (snd a))) (rows base ! i))
                else Num 0))
      \<and> (\<forall>c. c \<noteq> fst a \<longrightarrow> (\<forall>i < length (rows base).
             (rows (survey_dimension_step a data) ! i) c = (rows data ! i) c))"
proof -
  have na: "fst a \<in> set survey_assigned" using a by (simp add: survey_assigned_def)
  have pq: "\<forall>q \<in> set (snd a). \<forall>c. contains c q \<or> startswith c (q_prefix q) \<longrightarrow> c \<notin> set survey_assigned"
    using survey_pred_has_Q [OF a] has_Q_unassigned by blast
  note g = dimension_step_generic [OF e na pq, where g = "cell_map (round_dp 2)" and dflt = "Num 0"]
  have sm: "survey_match cols = (\<lambda>q. first_where (\<lambda>c. contains c q \<or> startswith c (q_prefix q)) cols)" for cols
    by (rule ext) (simp add: survey_match_def)
  show ?thesis
    unfolding survey_dimension_step_def Let_def sm
    using g by (intro conjI) simp_all
qed

lemma distinct_survey_names: "distinct (map fst survey_dimension_map)"
  by (simp add: survey_dimension_map_def)

lemma survey_dimensions_fold:
  "extends (set survey_assigned) base (fold survey_dimension_step survey_dimension_map base)
   \<and> (\<forall>a \<in> set survey_dimension_map. \<forall>i < length (rows base).
         (rows (fold survey_dimension_step survey_dimension_map base) ! i) (fst a)
           = (if somes (map (survey_match (columns base)) (snd a)) \<noteq> []
                then cell_map (round_dp 2) (row_mean (somes (map (survey_match (columns base)) (snd a))) (rows base ! i))
                else Num 0))"
  using fold_steps [where step = survey_dimension_step and name = fst and N = "set survey_assigned"
      and target = "\<lambda>a r. if somes (map (survey_match (columns base)) (snd a)) \<noteq> []
                then cell_map (round_dp 2) (row_mean (somes (map (survey_match (columns base)) (snd a))) r)
                else Num 0" and as = survey_dimension_map and df = base and data = base,
      OF survey_dimension_step_props distinct_survey_names extends_refl]
  by blast

lemma extends_survey_engagement:
  "extends (set survey_assigned) df data \<Longrightarrow> extends (set survey_assigned) df (survey_engagement data)"
  by (simp add: survey_engagement_def extends_set_column survey_assigned_names)

lemma extends_survey_stress:
  "extends (set survey_assigned) df data \<Longrightarrow> extends (set survey_assigned) df (survey_stress data)"
  by (simp add: survey_stress_def extends_set_column survey_assigned_names)

lemma extends_survey_attrition:
  "extends (set survey_assigned) df data \<Longrightarrow> extends (set survey_assigned) df (survey_attrition data)"
  by (simp add: survey_attrition_def extends_set_column survey_assigned_names split: option.splits)





lemma survey_stages:
  fixes df :: frame
  defines "d1 \<equiv> fold survey_dimension_step survey_dimension_map (survey_base df)"
  shows "extends (set survey_assigned) (survey_base df) (survey_attrition (survey_stress (survey_engagement d1)))"
    and "extends (set survey_assigned) (survey_base df) (survey_stress (survey_engagement d1))"
    and "extends (set survey_assigned) (survey_base df) (survey_engagement d1)"
    and "extends (set survey_assigned) (survey_base df) d1"
proof -
  show e1: "extends (set survey_assigned) (survey_base df) d1"
    unfolding d1_def using survey_dimensions_fold by blast
  show e2: "extends (set survey_assigned) (survey_base df) (survey_engagement d1)"
    by (rule extends_survey_engagement [OF e1])
  show e3: "extends (set survey_assigned) (survey_base df) (survey_stress (survey_engagement d1))"
    by (rule extends_survey_stress [OF e2])
  show "extends (set survey_assigned) (survey_base df) (survey_attrition (survey_stress (survey_engagement d1)))"
    by (rule extends_survey_attrition [OF e3])
qed

lemma length_calculate_survey_metrics:
  "length (rows (calculate_survey_metrics df)) = length (rows df)"
  unfolding calculate_survey_metrics_base
  using extends_length [OF survey_stages(1) [of df]] by (simp add: length_survey_base)





section \<open>The cells that \<open>calculate_survey_metrics\<close> computes\<close>



lemma calculate_survey_metrics_keep:
  assumes i: "i < length (rows df)" and c: "c \<notin> set survey_assigned"
  shows "(rows (calculate_survey_metrics df) ! i) c = (rows (survey_base df) ! i) c"
  unfolding calculate_survey_metrics_base
  by (rule extends_cell [OF survey_stages(1) _ c]) (simp add: length_survey_base i)


section \<open>Attrition rate\<close>












section \<open>Dimension scores\<close>






text \<open>
  \<open>calculate_survey_metrics\<close> takes for a question the first column that contains the
  mapped name or starts with its \<open>Q<n>\<close> prefix, without the underscore; a \<open>Q10\<close>
  column that comes first is taken for question 1.
\<close>

lemma survey_match_loose:
  "survey_match [''Q10_Sup_Informed'', ''Q1_Recommend''] ''Q1_Recommend'' = Some ''Q10_Sup_Informed''"
  by (simp add: survey_match_def first_where_def q_prefix_def startswith_def)







section \<open>Temporal fields of an invalid date\<close>









section \<open>Festival season of a record\<close>














section \<open>Sorting by date and dropping duplicates\<close>








section \<open>The snapshot keeps the latest submission of every employee\<close>


lemma latest_per_employee_columns: "columns (latest_per_employee dc df) = columns df"
  by (simp add: latest_per_employee_def)
















end
